theory Spec2Isabelle
  imports Complex_Main
begin

section \<open>JavaScript values\<close>

text \<open>
  The values that reach \<^verbatim>\<open>school.js\<close>: \<^verbatim>\<open>undefined\<close>, \<^verbatim>\<open>null\<close>, booleans, numbers,
  strings, Symbols (the catalog keys of \<^verbatim>\<open>School.Type\<close> and \<^verbatim>\<open>School.Region\<close>) and plain
  option objects such as \<^verbatim>\<open>{year: 2024, month: 5}\<close>.

  \<^item> A number is an integer (years, months), of a size that JavaScript prints as a plain
    decimal numeral. Fractions, \<^verbatim>\<open>NaN\<close> and the infinities are not among the values; they
    appear as the numeric value of a string.
  \<^item> A string is a list of characters, one \<open>char\<close> per code unit, so \<open>length\<close> is the
    \<^verbatim>\<open>length\<close> property for text whose code units are below 256.
  \<^item> A Symbol is identified by its description.
  \<^item> An object is the association list of its own data properties (the first entry of a
    name is the property). It has the prototype of an object literal and no own
    \<^verbatim>\<open>toString\<close> or \<^verbatim>\<open>valueOf\<close>, so its string form is \<^verbatim>\<open>[object Object]\<close>. Arrays are
    not modelled.
  \<^item> A function is its source text, which is its string form; a catalog read can give one
    (\<^verbatim>\<open>table['constructor']\<close>). It has no property that the source reads.
\<close>

datatype jsval =
    JUndefined
  | JNull
  | JBool bool
  | JNum int
  | JStr string
  | JSym string
  | JObj "(string \<times> jsval) list"
  | JFun string

text \<open>
  Every \<^verbatim>\<open>throw new Error(...)\<close> of the source is a constructor, named as the
  specification names the failure; \<open>TypeError\<close> is what the runtime itself throws
  (a property read on \<^verbatim>\<open>undefined\<close>, a call of a missing method, a Symbol in a template).
  \<open>AlreadyInitializedError\<close> (line 51, its message carries the school code) and
  \<open>RequiredDataError\<close> (line 60) are the two construction errors.
\<close>

datatype error =
    AlreadyInitializedError string
  | RequiredDataError
  | UnknownKindError
  | NotInitializedError
  | IncompleteDateError
  | MonthRangeError
  | TypeError

fun is_ConfigurationError :: "error \<Rightarrow> bool" where
  "is_ConfigurationError (AlreadyInitializedError c) = True"
| "is_ConfigurationError RequiredDataError = True"
| "is_ConfigurationError UnknownKindError = False"
| "is_ConfigurationError NotInitializedError = False"
| "is_ConfigurationError IncompleteDateError = False"
| "is_ConfigurationError MonthRangeError = False"
| "is_ConfigurationError TypeError = False"

text \<open>Sequencing of steps that may throw: the first error ends the evaluation.\<close>

definition and_then :: "error + 'a \<Rightarrow> ('a \<Rightarrow> error + 'b) \<Rightarrow> error + 'b" where
  "and_then m f = (case m of Inl e \<Rightarrow> Inl e | Inr x \<Rightarrow> f x)"

subsection \<open>Truthiness, \<^verbatim>\<open>||\<close> and \<^verbatim>\<open>typeof\<close>\<close>

fun truthy :: "jsval \<Rightarrow> bool" where
  "truthy JUndefined = False"
| "truthy JNull = False"
| "truthy (JBool b) = b"
| "truthy (JNum n) = (n \<noteq> 0)"
| "truthy (JStr s) = (s \<noteq> [])"
| "truthy (JSym d) = True"
| "truthy (JObj fs) = True"
| "truthy (JFun src) = True"

definition js_or :: "jsval \<Rightarrow> jsval \<Rightarrow> jsval" where
  "js_or a b = (if truthy a then a else b)"

fun typeof :: "jsval \<Rightarrow> string" where
  "typeof JUndefined = ''undefined''"
| "typeof JNull = ''object''"
| "typeof (JBool b) = ''boolean''"
| "typeof (JNum n) = ''number''"
| "typeof (JStr s) = ''string''"
| "typeof (JSym d) = ''symbol''"
| "typeof (JObj fs) = ''object''"
| "typeof (JFun src) = ''function''"

subsection \<open>Conversion to a string\<close>

definition digit_char :: "nat \<Rightarrow> char" where
  "digit_char d = ''0123456789'' ! (d mod 10)"

fun digits :: "nat \<Rightarrow> string" where
  "digits n = (if n < 10 then [digit_char n] else digits (n div 10) @ [digit_char (n mod 10)])"

declare digits.simps [simp del]

definition Number_toString :: "int \<Rightarrow> string" where
  "Number_toString n = (if n < 0 then CHR ''-'' # digits (nat (- n)) else digits (nat n))"

text \<open>
  \<open>ToString\<close> is the conversion of a template literal \<^verbatim>\<open>`${v}`\<close>: it throws on a
  Symbol. \<open>toString_method\<close> is the call \<^verbatim>\<open>v.toString()\<close>: it throws on
  \<^verbatim>\<open>undefined\<close> and \<^verbatim>\<open>null\<close>, and a Symbol prints as \<^verbatim>\<open>Symbol(description)\<close>.
\<close>

fun ToString :: "jsval \<Rightarrow> error + string" where
  "ToString JUndefined = Inr ''undefined''"
| "ToString JNull = Inr ''null''"
| "ToString (JBool b) = Inr (if b then ''true'' else ''false'')"
| "ToString (JNum n) = Inr (Number_toString n)"
| "ToString (JStr s) = Inr s"
| "ToString (JSym d) = Inl TypeError"
| "ToString (JObj fs) = Inr ''[object Object]''"
| "ToString (JFun src) = Inr src"

fun toString_method :: "jsval \<Rightarrow> error + string" where
  "toString_method JUndefined = Inl TypeError"
| "toString_method JNull = Inl TypeError"
| "toString_method (JBool b) = Inr (if b then ''true'' else ''false'')"
| "toString_method (JNum n) = Inr (Number_toString n)"
| "toString_method (JStr s) = Inr s"
| "toString_method (JSym d) = Inr (''Symbol('' @ d @ '')'')"
| "toString_method (JObj fs) = Inr ''[object Object]''"
| "toString_method (JFun src) = Inr src"

text \<open>
  \<^verbatim>\<open>toLowerCase\<close> on code units below 256: the 26 capital letters and the capital
  letters from \<open>0xC0\<close> to \<open>0xDE\<close> (but not the sign \<open>0xD7\<close>) change, nothing else does.
\<close>

definition char_toLowerCase :: "char \<Rightarrow> char" where
  "char_toLowerCase c =
     (case map_of
        (zip (''ABCDEFGHIJKLMNOPQRSTUVWXYZ'' @
              [CHR 0xC0, CHR 0xC1, CHR 0xC2, CHR 0xC3, CHR 0xC4, CHR 0xC5, CHR 0xC6, CHR 0xC7,
               CHR 0xC8, CHR 0xC9, CHR 0xCA, CHR 0xCB, CHR 0xCC, CHR 0xCD, CHR 0xCE, CHR 0xCF,
               CHR 0xD0, CHR 0xD1, CHR 0xD2, CHR 0xD3, CHR 0xD4, CHR 0xD5, CHR 0xD6,
               CHR 0xD8, CHR 0xD9, CHR 0xDA, CHR 0xDB, CHR 0xDC, CHR 0xDD, CHR 0xDE])
             (''abcdefghijklmnopqrstuvwxyz'' @
              [CHR 0xE0, CHR 0xE1, CHR 0xE2, CHR 0xE3, CHR 0xE4, CHR 0xE5, CHR 0xE6, CHR 0xE7,
               CHR 0xE8, CHR 0xE9, CHR 0xEA, CHR 0xEB, CHR 0xEC, CHR 0xED, CHR 0xEE, CHR 0xEF,
               CHR 0xF0, CHR 0xF1, CHR 0xF2, CHR 0xF3, CHR 0xF4, CHR 0xF5, CHR 0xF6,
               CHR 0xF8, CHR 0xF9, CHR 0xFA, CHR 0xFB, CHR 0xFC, CHR 0xFD, CHR 0xFE])) c of
        None \<Rightarrow> c
      | Some l \<Rightarrow> l)"

definition String_toLowerCase :: "string \<Rightarrow> string" where
  "String_toLowerCase s = map char_toLowerCase s"

text \<open>\<^verbatim>\<open>v.toLowerCase()\<close>: only a string has the method.\<close>

fun toLowerCase_method :: "jsval \<Rightarrow> error + string" where
  "toLowerCase_method (JStr s) = Inr (String_toLowerCase s)"
| "toLowerCase_method v = Inl TypeError"

subsection \<open>Conversion to a number and the comparisons with 1 and 12\<close>

text \<open>
  The result of a numeric conversion: \<^verbatim>\<open>NaN\<close>, an infinity, or an exact finite value.
\<close>

datatype number = NaN | Finite rat | PlusInfinity | MinusInfinity

fun negate :: "number \<Rightarrow> number" where
  "negate NaN = NaN"
| "negate (Finite x) = Finite (- x)"
| "negate PlusInfinity = MinusInfinity"
| "negate MinusInfinity = PlusInfinity"

text \<open>
  White space and line terminators among the code units below 256: tab, line feed,
  vertical tab, form feed, carriage return, space and the no-break space.
\<close>

definition is_whitespace :: "char \<Rightarrow> bool" where
  "is_whitespace c =
     (c \<in> set [CHR 0x09, CHR 0x0A, CHR 0x0B, CHR 0x0C, CHR 0x0D, CHR '' '', CHR 0xA0])"

definition trim :: "string \<Rightarrow> string" where
  "trim s = rev (dropWhile is_whitespace (rev (dropWhile is_whitespace s)))"

definition digit_of :: "char \<Rightarrow> nat option" where
  "digit_of c =
     map_of (zip ''0123456789abcdefABCDEF''
       [0, 1, 2, 3, 4, 5, 6, 7, 8, 9, 10, 11, 12, 13, 14, 15, 10, 11, 12, 13, 14, 15]) c"

definition is_digit_of :: "nat \<Rightarrow> char \<Rightarrow> bool" where
  "is_digit_of base c = (case digit_of c of None \<Rightarrow> False | Some d \<Rightarrow> d < base)"

definition digits_value :: "nat \<Rightarrow> string \<Rightarrow> nat" where
  "digits_value base ds =
     foldl (\<lambda>a c. base * a + (case digit_of c of None \<Rightarrow> 0 | Some d \<Rightarrow> d)) 0 ds"

text \<open>A non-empty run of digits of the base, and nothing else, is its value.\<close>

definition all_digits :: "nat \<Rightarrow> string \<Rightarrow> nat option" where
  "all_digits base ds =
     (if ds \<noteq> [] \<and> list_all (is_digit_of base) ds then Some (digits_value base ds) else None)"

text \<open>\<^verbatim>\<open>0x\<close>, \<^verbatim>\<open>0o\<close> and \<^verbatim>\<open>0b\<close> literals, the prefix letter in either case, with no sign.\<close>

definition NonDecimalIntegerLiteral :: "string \<Rightarrow> nat option" where
  "NonDecimalIntegerLiteral s =
     (case s of
        c # p # ds \<Rightarrow>
          if c \<noteq> CHR ''0'' then None
          else if p = CHR ''x'' \<or> p = CHR ''X'' then all_digits 16 ds
          else if p = CHR ''o'' \<or> p = CHR ''O'' then all_digits 8 ds
          else if p = CHR ''b'' \<or> p = CHR ''B'' then all_digits 2 ds
          else None
      | _ \<Rightarrow> None)"

text \<open>
  What follows the digits of a decimal literal: nothing (exponent 0), or \<^verbatim>\<open>e\<close> or
  \<^verbatim>\<open>E\<close>, an optional sign and at least one digit.
\<close>

definition ExponentPart :: "string \<Rightarrow> int option" where
  "ExponentPart r =
     (case r of
        [] \<Rightarrow> Some 0
      | c # t \<Rightarrow>
          if c = CHR ''e'' \<or> c = CHR ''E'' then
            (case t of
               [] \<Rightarrow> None
             | s # ds \<Rightarrow>
                 if s = CHR ''+'' then map_option int (all_digits 10 ds)
                 else if s = CHR ''-'' then map_option (\<lambda>n. - int n) (all_digits 10 ds)
                 else map_option int (all_digits 10 t))
          else None)"

definition scale10 :: "rat \<Rightarrow> int \<Rightarrow> rat" where
  "scale10 m e = (if 0 \<le> e then m * 10 ^ nat e else m / 10 ^ nat (- e))"

text \<open>
  An unsigned decimal literal: \<^verbatim>\<open>Infinity\<close>, or digits with an optional fraction and an
  optional exponent, with a digit before or after the point.
\<close>

definition StrUnsignedDecimalLiteral :: "string \<Rightarrow> number" where
  "StrUnsignedDecimalLiteral s =
     (if s = ''Infinity'' then PlusInfinity
      else
        (let ip = takeWhile (is_digit_of 10) s;
             r1 = dropWhile (is_digit_of 10) s;
             has_point = (case r1 of [] \<Rightarrow> False | c # t \<Rightarrow> c = CHR ''.'');
             fp = (if has_point then takeWhile (is_digit_of 10) (tl r1) else []);
             r2 = (if has_point then dropWhile (is_digit_of 10) (tl r1) else r1)
         in if ip = [] \<and> fp = [] then NaN
            else (case ExponentPart r2 of
                    None \<Rightarrow> NaN
                  | Some e \<Rightarrow>
                      Finite (scale10 (of_nat (digits_value 10 (ip @ fp))) (e - int (length fp))))))"

text \<open>
  The numeric value of a string: surrounding white space is dropped; the empty string is
  0; then a radix literal, or a decimal literal with an optional sign; anything else is
  \<^verbatim>\<open>NaN\<close>. The value is exact; the rounding to a double is accounted for in the
  comparisons below.
\<close>

definition StringToNumber :: "string \<Rightarrow> number" where
  "StringToNumber s =
     (case trim s of
        [] \<Rightarrow> Finite 0
      | c # r \<Rightarrow>
          (case NonDecimalIntegerLiteral (c # r) of
             Some n \<Rightarrow> Finite (of_nat n)
           | None \<Rightarrow>
               if c = CHR ''-'' then negate (StrUnsignedDecimalLiteral r)
               else if c = CHR ''+'' then StrUnsignedDecimalLiteral r
               else StrUnsignedDecimalLiteral (c # r)))"

text \<open>
  An object converts through its string form \<^verbatim>\<open>[object Object]\<close>; the source text of a
  function is never a numeric literal.
\<close>

fun ToNumber :: "jsval \<Rightarrow> error + number" where
  "ToNumber JUndefined = Inr NaN"
| "ToNumber JNull = Inr (Finite 0)"
| "ToNumber (JBool b) = Inr (Finite (if b then 1 else 0))"
| "ToNumber (JNum n) = Inr (Finite (of_int n))"
| "ToNumber (JStr s) = Inr (StringToNumber s)"
| "ToNumber (JSym d) = Inl TypeError"
| "ToNumber (JObj fs) = Inr (StringToNumber ''[object Object]'')"
| "ToNumber (JFun src) = Inr NaN"

text \<open>
  \<^verbatim>\<open>x < 1\<close> and \<^verbatim>\<open>x > 12\<close> on the double nearest to the exact value \<open>x\<close> (ties to the
  even significand). The doubles next to 1 and 12 are \<open>1 - 1 / 2 ^ 53\<close> and
  \<open>12 + 1 / 2 ^ 49\<close>, and 1 and 12 have even significands, so the nearest double is below
  1 exactly when \<open>x < 1 - 1 / 2 ^ 54\<close> and above 12 exactly when \<open>12 + 1 / 2 ^ 50 < x\<close>.
  For an integer \<open>x\<close> these are \<open>x < 1\<close> and \<open>12 < x\<close>. A comparison with \<^verbatim>\<open>NaN\<close> is false.
\<close>

fun less_than_1 :: "number \<Rightarrow> bool" where
  "less_than_1 NaN = False"
| "less_than_1 (Finite x) = (x < 1 - 1 / 2 ^ 54)"
| "less_than_1 PlusInfinity = False"
| "less_than_1 MinusInfinity = True"

fun greater_than_12 :: "number \<Rightarrow> bool" where
  "greater_than_12 NaN = False"
| "greater_than_12 (Finite x) = (12 + 1 / 2 ^ 50 < x)"
| "greater_than_12 PlusInfinity = True"
| "greater_than_12 MinusInfinity = False"

text \<open>\<^verbatim>\<open>v < 1\<close> and \<^verbatim>\<open>v > 12\<close> for a value \<open>v\<close>, which is converted to a number first.\<close>

definition js_lt_1 :: "jsval \<Rightarrow> error + bool" where
  "js_lt_1 v = and_then (ToNumber v) (\<lambda>x. Inr (less_than_1 x))"

definition js_gt_12 :: "jsval \<Rightarrow> error + bool" where
  "js_gt_12 v = and_then (ToNumber v) (\<lambda>x. Inr (greater_than_12 x))"

subsection \<open>Property reads\<close>

text \<open>
  \<^verbatim>\<open>v.name\<close> for the names the source reads (\<^verbatim>\<open>year\<close>, \<^verbatim>\<open>yaer\<close>, \<^verbatim>\<open>month\<close>,
  \<^verbatim>\<open>default\<close>): a \<open>TypeError\<close> on \<^verbatim>\<open>undefined\<close> and \<^verbatim>\<open>null\<close>, the own property of an
  object, \<^verbatim>\<open>undefined\<close> where there is none.
\<close>

definition own_prop :: "(string \<times> jsval) list \<Rightarrow> string \<Rightarrow> jsval" where
  "own_prop fs name = (case map_of fs name of None \<Rightarrow> JUndefined | Some v \<Rightarrow> v)"

fun get_prop :: "jsval \<Rightarrow> string \<Rightarrow> error + jsval" where
  "get_prop JUndefined name = Inl TypeError"
| "get_prop JNull name = Inl TypeError"
| "get_prop (JObj fs) name = Inr (own_prop fs name)"
| "get_prop v name = Inr JUndefined"

text \<open>
  \<^verbatim>\<open>table[key]\<close> on a catalog. The key is a Symbol or the string form of any other value.
  A catalog is given by its property read, own and inherited members alike: the value
  under each key, \<^verbatim>\<open>undefined\<close> where the key maps to nothing.
\<close>

datatype propkey = SymbolKey string | StringKey string

fun ToPropertyKey :: "jsval \<Rightarrow> propkey" where
  "ToPropertyKey JUndefined = StringKey ''undefined''"
| "ToPropertyKey JNull = StringKey ''null''"
| "ToPropertyKey (JBool b) = StringKey (if b then ''true'' else ''false'')"
| "ToPropertyKey (JNum n) = StringKey (Number_toString n)"
| "ToPropertyKey (JStr s) = StringKey s"
| "ToPropertyKey (JSym d) = SymbolKey d"
| "ToPropertyKey (JObj fs) = StringKey ''[object Object]''"
| "ToPropertyKey (JFun src) = StringKey src"

definition lookup :: "(propkey \<Rightarrow> jsval) \<Rightarrow> jsval \<Rightarrow> jsval" where
  "lookup table key = table (ToPropertyKey key)"

text \<open>
  The property read of an object literal: its own entries first, then what it inherits
  from \<^verbatim>\<open>Object.prototype\<close>, whose members are functions under eleven string keys and the
  prototype object itself under \<^verbatim>\<open>__proto__\<close>, and which has no Symbol key.
\<close>

definition Object_prototype :: "propkey \<Rightarrow> jsval" where
  "Object_prototype k =
     (case k of
        SymbolKey d \<Rightarrow> JUndefined
      | StringKey name \<Rightarrow>
          if name = ''constructor'' then JFun ''function Object() { [native code] }''
          else if name \<in> set [''toString'', ''toLocaleString'', ''valueOf'', ''hasOwnProperty'',
                 ''isPrototypeOf'', ''propertyIsEnumerable'', ''__defineGetter__'',
                 ''__defineSetter__'', ''__lookupGetter__'', ''__lookupSetter__'']
          then JFun (''function '' @ name @ ''() { [native code] }'')
          else if name = ''__proto__'' then JObj []
          else JUndefined)"

definition object_literal :: "(propkey \<times> jsval) list \<Rightarrow> propkey \<Rightarrow> jsval" where
  "object_literal entries k =
     (case map_of entries k of None \<Rightarrow> Object_prototype k | Some v \<Rightarrow> v)"

section \<open>The modules \<^verbatim>\<open>school.js\<close> requires\<close>

text \<open>
  \<^verbatim>\<open>data/data.js\<close>, \<^verbatim>\<open>src/meal.js\<close> and \<^verbatim>\<open>src/calendar.js\<close> are modules of their own
  that \<^verbatim>\<open>school.js\<close> requires (line 16-18); what they export is a parameter here:
  \<open>DATA\<close> with its two catalogs and the two portal paths, and the objects that
  \<^verbatim>\<open>new Meal()\<close> and \<^verbatim>\<open>new Calendar()\<close> give, each one represented by its
  \<^verbatim>\<open>getData(url, defaultValue)\<close> method with an arbitrary result type.
\<close>

record data =
  EDUTYPE :: "propkey \<Rightarrow> jsval"
  REGION :: "propkey \<Rightarrow> jsval"
  mealUrl :: jsval
  calendarUrl :: jsval

type_synonym 'r fetcher = "string \<Rightarrow> jsval \<Rightarrow> 'r"

record 'r modules =
  DATA :: data
  new_Meal :: "'r fetcher"
  new_Calendar :: "'r fetcher"

section \<open>The class \<^verbatim>\<open>School\<close>\<close>

text \<open>
  The instance fields \<^verbatim>\<open>this._DATA\<close>, ..., \<^verbatim>\<open>this._initialized\<close> (an identifier cannot
  start with an underscore, hence \<open>p_\<close>). A field never assigned reads as
  \<^verbatim>\<open>undefined\<close>: \<open>JUndefined\<close>, or \<open>None\<close> for the three fields that hold a module object.
\<close>

record 'r school =
  p_DATA :: "data option"
  p_mealUrl :: jsval
  p_calendarUrl :: jsval
  p_meal :: "'r fetcher option"
  p_calendar :: "'r fetcher option"
  p_eduType :: jsval
  p_region :: jsval
  p_schoolCode :: jsval
  p_initialized :: jsval

definition fresh :: "'r school" where
  "fresh = \<lparr>p_DATA = None, p_mealUrl = JUndefined, p_calendarUrl = JUndefined,
     p_meal = None, p_calendar = None, p_eduType = JUndefined, p_region = JUndefined,
     p_schoolCode = JUndefined, p_initialized = JUndefined\<rparr>"

subsection \<open>\<^verbatim>\<open>constructor (type, region, schoolCode)\<close>, lines 43-62\<close>

text \<open>
  The body runs on the object \<open>this\<close> and gives the error it throws, if any, with the
  object as it is at that moment. Lines 55-56 read the catalogs through \<^verbatim>\<open>this._DATA\<close>,
  which line 44 has just set to \<open>DATA\<close>.
\<close>

definition School_constructor ::
  "'r modules \<Rightarrow> 'r school \<Rightarrow> jsval \<Rightarrow> jsval \<Rightarrow> jsval \<Rightarrow> error option \<times> 'r school" where
  "School_constructor env this0 type region schoolCode =
     (let this = this0\<lparr>p_DATA := Some (DATA env)\<rparr>;
          this = this\<lparr>p_mealUrl := mealUrl (DATA env)\<rparr>;
          this = this\<lparr>p_calendarUrl := calendarUrl (DATA env)\<rparr>;
          this = this\<lparr>p_meal := Some (new_Meal env)\<rparr>;
          this = this\<lparr>p_calendar := Some (new_Calendar env)\<rparr>
      in if truthy (p_initialized this) then
           (case ToString (p_schoolCode this) of
              Inl e \<Rightarrow> (Some e, this)
            | Inr code \<Rightarrow> (Some (AlreadyInitializedError code), this))
         else if truthy type \<and> truthy region \<and> truthy schoolCode then
           (let this = this\<lparr>p_eduType := lookup (EDUTYPE (DATA env)) type\<rparr>;
                this = this\<lparr>p_region := lookup (REGION (DATA env)) region\<rparr>;
                this = this\<lparr>p_schoolCode := schoolCode\<rparr>;
                this = this\<lparr>p_initialized := JBool True\<rparr>
            in (None, this))
         else (Some RequiredDataError, this))"

text \<open>
  \<^verbatim>\<open>new School(type, region, schoolCode)\<close>: the body runs on a fresh object, and the
  caller gets the object only when the body does not throw.
\<close>

definition new_School :: "'r modules \<Rightarrow> jsval \<Rightarrow> jsval \<Rightarrow> jsval \<Rightarrow> error + 'r school" where
  "new_School env type region schoolCode =
     (case School_constructor env fresh type region schoolCode of
        (Some e, this) \<Rightarrow> Inl e
      | (None, this) \<Rightarrow> Inr this)"

subsection \<open>\<^verbatim>\<open>monthFormat (month)\<close>, lines 69-84\<close>

definition monthFormat :: "jsval \<Rightarrow> error + string" where
  "monthFormat month0 =
     and_then (toString_method month0) (\<lambda>month.
       if length month > 2 then Inr ''''
       else if month = '''' \<or> length month = 2 then Inr month
       else Inr (''0'' @ month))"

subsection \<open>\<^verbatim>\<open>createUrl (type, year, month)\<close>, lines 91-114\<close>

definition createUrl :: "'r school \<Rightarrow> jsval \<Rightarrow> jsval \<Rightarrow> jsval \<Rightarrow> error + string" where
  "createUrl this type year month =
     (if truthy (p_initialized this) then
        and_then (toLowerCase_method type) (\<lambda>typeString.
        and_then (if typeString = ''meal'' then Inr (p_mealUrl this)
                  else if typeString = ''calendar'' then Inr (p_calendarUrl this)
                  else Inl UnknownKindError) (\<lambda>typeUrl.
        and_then (ToString (p_region this)) (\<lambda>r.
        and_then (ToString typeUrl) (\<lambda>u.
        and_then (ToString (p_schoolCode this)) (\<lambda>c.
        and_then (ToString (p_eduType this)) (\<lambda>t1.
        and_then (ToString (p_eduType this)) (\<lambda>t2.
        and_then (ToString (js_or year (JStr ''''))) (\<lambda>y.
        and_then (monthFormat (js_or month (JStr ''''))) (\<lambda>m.
          Inr (''https://'' @ r @ ''/'' @ u @ ''?''
               @ ''schulCode='' @ c @ ''&''
               @ ''schulCrseScCode='' @ t1 @ ''&''
               @ ''schulKndScCode=0'' @ t2 @ ''&''
               @ ''ay='' @ y @ ''&''
               @ ''mm='' @ m @ ''&''))))))))))
      else Inl NotInitializedError)"

subsection \<open>Date arguments\<close>

text \<open>
  The condition of lines 125-128, 148-151 and 186-189, and the check of lines 156-158 and
  194-196 (\<^verbatim>\<open>if (month < 1 || month > 12) throw\<close>).
\<close>

definition date_incomplete :: "jsval \<Rightarrow> jsval \<Rightarrow> bool" where
  "date_incomplete year month =
     (\<not> ((year \<noteq> JUndefined \<and> month \<noteq> JUndefined) \<or> (year = JUndefined \<and> month = JUndefined)))"

definition month_range_check :: "jsval \<Rightarrow> error + unit" where
  "month_range_check month =
     and_then (js_lt_1 month) (\<lambda>below.
       if below then Inl MonthRangeError
       else and_then (js_gt_12 month) (\<lambda>above.
         if above then Inl MonthRangeError else Inr ()))"

subsection \<open>\<^verbatim>\<open>getTargetURL (type, year, month)\<close>, lines 123-133\<close>

definition getTargetURL :: "'r school \<Rightarrow> jsval \<Rightarrow> jsval \<Rightarrow> jsval \<Rightarrow> error + string" where
  "getTargetURL this type year month =
     (if date_incomplete year month then Inl IncompleteDateError
      else createUrl this type year month)"

subsection \<open>\<^verbatim>\<open>getMeal (year, month)\<close>, lines 141-171\<close>

text \<open>
  The method is \<^verbatim>\<open>async\<close>: \<open>Inl e\<close> is the promise rejected with \<open>e\<close>, \<open>Inr r\<close> is
  what \<^verbatim>\<open>getData\<close> gave. The first step resolves \<open>(option, year, month)\<close>; the callee
  \<^verbatim>\<open>this._meal.getData\<close> is read before the arguments of the call are evaluated.
\<close>

definition getMeal :: "'r school \<Rightarrow> jsval \<Rightarrow> jsval \<Rightarrow> error + 'r" where
  "getMeal this year0 month0 =
     and_then
       (if typeof year0 = ''object'' then
          and_then (get_prop year0 ''year'') (\<lambda>year.
          and_then (get_prop year0 ''month'') (\<lambda>month.
            Inr (year0, year, month)))
        else if date_incomplete year0 month0 then Inl IncompleteDateError
        else Inr (JObj [], year0, month0))
       (\<lambda>(option, year, month).
          and_then (month_range_check month) (\<lambda>_.
            if truthy (p_initialized this) then
              (let option = js_or option (JObj []) in
               and_then (get_prop option ''default'') (\<lambda>d.
                 (let defaultMealValue = js_or d (JStr '''') in
                  case p_meal this of
                    None \<Rightarrow> Inl TypeError
                  | Some meal \<Rightarrow>
                      and_then (createUrl this (JStr ''meal'') year month) (\<lambda>url.
                        Inr (meal url defaultMealValue)))))
            else Inl NotInitializedError))"

subsection \<open>\<^verbatim>\<open>getCalendar (year, month)\<close>, lines 179-209\<close>

text \<open>Line 183 reads \<^verbatim>\<open>option.yaer\<close>.\<close>

definition getCalendar :: "'r school \<Rightarrow> jsval \<Rightarrow> jsval \<Rightarrow> error + 'r" where
  "getCalendar this year0 month0 =
     and_then
       (if typeof year0 = ''object'' then
          and_then (get_prop year0 ''yaer'') (\<lambda>year.
          and_then (get_prop year0 ''month'') (\<lambda>month.
            Inr (year0, year, month)))
        else if date_incomplete year0 month0 then Inl IncompleteDateError
        else Inr (JObj [], year0, month0))
       (\<lambda>(option, year, month).
          and_then (month_range_check month) (\<lambda>_.
            if truthy (p_initialized this) then
              (let option = js_or option (JObj []) in
               and_then (get_prop option ''default'') (\<lambda>d.
                 (let defaultCalendarValue = js_or d (JStr '''') in
                  case p_calendar this of
                    None \<Rightarrow> Inl TypeError
                  | Some calendar \<Rightarrow>
                      and_then (createUrl this (JStr ''calendar'') year month) (\<lambda>url.
                        Inr (calendar url defaultCalendarValue)))))
            else Inl NotInitializedError))"

section \<open>A sample configuration\<close>

text \<open>
  A catalog with one institution type and one region, and fetchers that give back the
  pair of their arguments, for evaluating the definitions at concrete inputs. The
  theorems below hold for every catalog and every fetcher.
\<close>

definition sample_DATA :: data where
  "sample_DATA = \<lparr>EDUTYPE = object_literal [(SymbolKey ''HIGH'', JStr ''4'')],
     REGION = object_literal [(SymbolKey ''SEOUL'', JStr ''stu.sen.go.kr'')],
     mealUrl = JStr ''sts_sci_md00_001.do'',
     calendarUrl = JStr ''sts_sci_sf01_001.do''\<rparr>"

definition sample_env :: "(string \<times> jsval) modules" where
  "sample_env = \<lparr>DATA = sample_DATA, new_Meal = Pair, new_Calendar = Pair\<rparr>"

definition sample_school :: "(string \<times> jsval) school" where
  "sample_school = \<lparr>p_DATA = Some sample_DATA,
     p_mealUrl = JStr ''sts_sci_md00_001.do'', p_calendarUrl = JStr ''sts_sci_sf01_001.do'',
     p_meal = Some Pair, p_calendar = Some Pair,
     p_eduType = JStr ''4'', p_region = JStr ''stu.sen.go.kr'',
     p_schoolCode = JStr ''B100000465'', p_initialized = JBool True\<rparr>"

section \<open>Auxiliary facts\<close>

lemma and_then_Inr: "and_then (Inr x) f = f x"
  by (simp add: and_then_def)

lemma and_then_Inl: "and_then (Inl e) f = Inl e"
  by (simp add: and_then_def)

lemma String_toLowerCase_MEAL: "String_toLowerCase ''MEAL'' = ''meal''"
  by (simp add: String_toLowerCase_def char_toLowerCase_def)

lemma String_toLowerCase_CALENDAR: "String_toLowerCase ''CALENDAR'' = ''calendar''"
  by (simp add: String_toLowerCase_def char_toLowerCase_def)

lemma String_toLowerCase_meal: "String_toLowerCase ''meal'' = ''meal''"
  by (simp add: String_toLowerCase_def char_toLowerCase_def)

lemma String_toLowerCase_calendar: "String_toLowerCase ''calendar'' = ''calendar''"
  by (simp add: String_toLowerCase_def char_toLowerCase_def)

lemma Number_toString_5: "Number_toString 5 = ''5''"
  by (simp add: Number_toString_def digits.simps digit_char_def)




lemma Number_toString_2024: "Number_toString 2024 = ''2024''"
  by (simp add: Number_toString_def digits.simps digit_char_def)


section \<open>Month formatting\<close>



section \<open>URL construction\<close>

lemma createUrl_initialized:
  assumes "truthy (p_initialized this)"
  shows "createUrl this (JStr k) year month =
     and_then (if String_toLowerCase k = ''meal'' then Inr (p_mealUrl this)
               else if String_toLowerCase k = ''calendar'' then Inr (p_calendarUrl this)
               else Inl UnknownKindError) (\<lambda>typeUrl.
     and_then (ToString (p_region this)) (\<lambda>r.
     and_then (ToString typeUrl) (\<lambda>u.
     and_then (ToString (p_schoolCode this)) (\<lambda>c.
     and_then (ToString (p_eduType this)) (\<lambda>t1.
     and_then (ToString (p_eduType this)) (\<lambda>t2.
     and_then (ToString (js_or year (JStr ''''))) (\<lambda>y.
     and_then (monthFormat (js_or month (JStr ''''))) (\<lambda>m.
       Inr (''https://'' @ r @ ''/'' @ u @ ''?''
            @ ''schulCode='' @ c @ ''&''
            @ ''schulCrseScCode='' @ t1 @ ''&''
            @ ''schulKndScCode=0'' @ t2 @ ''&''
            @ ''ay='' @ y @ ''&''
            @ ''mm='' @ m @ ''&'')))))))))"
  using assms by (simp add: createUrl_def and_then_Inr)


lemma createUrl_same_lowercase:
  "String_toLowerCase k1 = String_toLowerCase k2 \<Longrightarrow>
   createUrl this (JStr k1) year month = createUrl this (JStr k2) year month"
  by (simp add: createUrl_def)

lemma createUrl_sample_meal:
  "createUrl sample_school (JStr ''meal'') (JNum 2024) (JNum 5) =
     Inr ''https://stu.sen.go.kr/sts_sci_md00_001.do?schulCode=B100000465&schulCrseScCode=4&schulKndScCode=04&ay=2024&mm=05&''"
  by (simp add: createUrl_def sample_school_def and_then_Inr js_or_def monthFormat_def
      String_toLowerCase_meal Number_toString_2024 Number_toString_5)

lemma createUrl_sample_calendar:
  "createUrl sample_school (JStr ''calendar'') (JNum 2024) (JNum 5) =
     Inr ''https://stu.sen.go.kr/sts_sci_sf01_001.do?schulCode=B100000465&schulCrseScCode=4&schulKndScCode=04&ay=2024&mm=05&''"
  by (simp add: createUrl_def sample_school_def and_then_Inr js_or_def monthFormat_def
      String_toLowerCase_calendar Number_toString_2024 Number_toString_5)

lemma sample_school_initialized: "truthy (p_initialized sample_school)"
  by (simp add: sample_school_def)

text \<open>
  Claim C8. \<open>createUrl\<close> (the specification's \<open>buildUrl\<close>) reads its kind through
  \<^verbatim>\<open>toLowerCase()\<close>: on a finalized identity, for every year and month, \<^verbatim>\<open>"MEAL"\<close> gives
  what \<^verbatim>\<open>"meal"\<close> gives and \<^verbatim>\<open>"CALENDAR"\<close> what \<^verbatim>\<open>"calendar"\<close> gives, two kinds with one
  lowercase form give the same result, and a kind whose lowercase form is neither
  \<^verbatim>\<open>"meal"\<close> nor \<^verbatim>\<open>"calendar"\<close> fails with \<open>UnknownKindError\<close>.
\<close>

theorem createUrl_kind_case_insensitive:
  assumes "truthy (p_initialized this)"
  shows "createUrl this (JStr ''MEAL'') year month = createUrl this (JStr ''meal'') year month
       \<and> createUrl this (JStr ''CALENDAR'') year month = createUrl this (JStr ''calendar'') year month
       \<and> (String_toLowerCase k1 = String_toLowerCase k2 \<longrightarrow>
            createUrl this (JStr k1) year month = createUrl this (JStr k2) year month)
       \<and> (String_toLowerCase k \<noteq> ''meal'' \<and> String_toLowerCase k \<noteq> ''calendar'' \<longrightarrow>
            createUrl this (JStr k) year month = Inl UnknownKindError)"
proof -
  have meal: "createUrl this (JStr ''MEAL'') year month = createUrl this (JStr ''meal'') year month"
    by (rule createUrl_same_lowercase) (simp add: String_toLowerCase_MEAL String_toLowerCase_meal)
  have calendar:
    "createUrl this (JStr ''CALENDAR'') year month = createUrl this (JStr ''calendar'') year month"
    by (rule createUrl_same_lowercase)
      (simp add: String_toLowerCase_CALENDAR String_toLowerCase_calendar)
  have same: "String_toLowerCase k1 = String_toLowerCase k2 \<longrightarrow>
      createUrl this (JStr k1) year month = createUrl this (JStr k2) year month"
    by (rule impI) (rule createUrl_same_lowercase)
  have unknown: "String_toLowerCase k \<noteq> ''meal'' \<and> String_toLowerCase k \<noteq> ''calendar'' \<longrightarrow>
      createUrl this (JStr k) year month = Inl UnknownKindError"
    using assms by (simp add: createUrl_initialized and_then_Inl)
  from meal calendar same unknown show ?thesis by blast
qed

theorem createUrl_kind_case_insensitive_witness:
  "truthy (p_initialized sample_school)
   \<and> String_toLowerCase ''Meal'' = String_toLowerCase ''mEAL''
   \<and> String_toLowerCase ''unknown'' \<noteq> ''meal'' \<and> String_toLowerCase ''unknown'' \<noteq> ''calendar''
   \<and> createUrl sample_school (JStr ''MEAL'') (JNum 2024) (JNum 5) =
       Inr ''https://stu.sen.go.kr/sts_sci_md00_001.do?schulCode=B100000465&schulCrseScCode=4&schulKndScCode=04&ay=2024&mm=05&''
   \<and> createUrl sample_school (JStr ''CALENDAR'') (JNum 2024) (JNum 5) =
       Inr ''https://stu.sen.go.kr/sts_sci_sf01_001.do?schulCode=B100000465&schulCrseScCode=4&schulKndScCode=04&ay=2024&mm=05&''
   \<and> createUrl sample_school (JStr ''Meal'') (JNum 2024) (JNum 5) =
       createUrl sample_school (JStr ''mEAL'') (JNum 2024) (JNum 5)
   \<and> createUrl sample_school (JStr ''unknown'') (JNum 2024) (JNum 5) = Inl UnknownKindError"
proof -
  have low: "String_toLowerCase ''Meal'' = String_toLowerCase ''mEAL''"
    by (simp add: String_toLowerCase_def char_toLowerCase_def)
  have unk: "String_toLowerCase ''unknown'' \<noteq> ''meal'' \<and> String_toLowerCase ''unknown'' \<noteq> ''calendar''"
    by (simp add: String_toLowerCase_def char_toLowerCase_def)
  show ?thesis
    using createUrl_kind_case_insensitive [OF sample_school_initialized,
        of "JNum 2024" "JNum 5" "''Meal''" "''mEAL''" "''unknown''"]
      low unk sample_school_initialized createUrl_sample_meal createUrl_sample_calendar
    by simp
qed

text \<open>
  Claim C5, as the code has it. On a finalized identity, for the kind \<^verbatim>\<open>meal\<close> or
  \<^verbatim>\<open>calendar\<close> in any letter case, \<open>createUrl\<close> returns exactly
  \<^verbatim>\<open>https://R/P?schulCode=C&schulCrseScCode=T&schulKndScCode=0T&ay=Y&mm=M&\<close>, where \<open>R\<close>,
  \<open>P\<close>, \<open>C\<close> and \<open>T\<close> are the string forms of the region host, the portal path of the
  kind, the school code and the institution type, \<open>Y\<close> is the string form of the year when
  the year is truthy and the empty string when it is falsy, and \<open>M\<close> is \<open>monthFormat\<close>
  of the month when the month is truthy and \<open>monthFormat\<close> of the empty string, that is
  the empty string, when it is falsy. Falsy covers the absent value and also \<open>0\<close>, the empty
  string, \<^verbatim>\<open>null\<close> and \<^verbatim>\<open>false\<close>.
\<close>

theorem createUrl_exact_shape:
  assumes "truthy (p_initialized this)"
    and "String_toLowerCase k = ''meal'' \<or> String_toLowerCase k = ''calendar''"
    and "ToString (p_region this) = Inr R"
    and "ToString (if String_toLowerCase k = ''meal'' then p_mealUrl this else p_calendarUrl this) = Inr P"
    and "ToString (p_schoolCode this) = Inr C"
    and "ToString (p_eduType this) = Inr T"
    and "ToString (if truthy year then year else JStr '''') = Inr Y"
    and "monthFormat (if truthy month then month else JStr '''') = Inr M"
  shows "createUrl this (JStr k) year month =
     Inr (''https://'' @ R @ ''/'' @ P @ ''?schulCode='' @ C @ ''&schulCrseScCode='' @ T
          @ ''&schulKndScCode=0'' @ T @ ''&ay='' @ Y @ ''&mm='' @ M @ ''&'')"
proof (cases "String_toLowerCase k = ''meal''")
  case True
  with assms show ?thesis
    by (simp add: createUrl_initialized and_then_Inr js_or_def)
next
  case False
  with assms have "String_toLowerCase k = ''calendar''" by blast
  with False assms show ?thesis
    by (simp add: createUrl_initialized and_then_Inr js_or_def)
qed

theorem createUrl_exact_shape_witness:
  "truthy (p_initialized sample_school)
   \<and> String_toLowerCase ''Meal'' = ''meal''
   \<and> ToString (p_region sample_school) = Inr ''stu.sen.go.kr''
   \<and> ToString (p_mealUrl sample_school) = Inr ''sts_sci_md00_001.do''
   \<and> ToString (p_schoolCode sample_school) = Inr ''B100000465''
   \<and> ToString (p_eduType sample_school) = Inr ''4''
   \<and> truthy (JNum 2024) \<and> ToString (JNum 2024) = Inr ''2024''
   \<and> \<not> truthy JUndefined \<and> monthFormat (JStr '''') = Inr ''''
   \<and> createUrl sample_school (JStr ''Meal'') (JNum 2024) JUndefined =
       Inr ''https://stu.sen.go.kr/sts_sci_md00_001.do?schulCode=B100000465&schulCrseScCode=4&schulKndScCode=04&ay=2024&mm=&''"
proof -
  have low: "String_toLowerCase ''Meal'' = ''meal''"
    by (simp add: String_toLowerCase_def char_toLowerCase_def)
  have mf: "monthFormat (JStr '''') = Inr ''''"
    by (simp add: monthFormat_def and_then_def)
  have "createUrl sample_school (JStr ''Meal'') (JNum 2024) JUndefined =
       Inr (''https://'' @ ''stu.sen.go.kr'' @ ''/'' @ ''sts_sci_md00_001.do'' @ ''?schulCode=''
          @ ''B100000465'' @ ''&schulCrseScCode='' @ ''4'' @ ''&schulKndScCode=0'' @ ''4''
          @ ''&ay='' @ ''2024'' @ ''&mm='' @ '''' @ ''&'')"
    by (rule createUrl_exact_shape)
      (simp_all add: sample_school_def low mf Number_toString_2024)
  then show ?thesis
    by (simp add: sample_school_def low mf Number_toString_2024)
qed

text \<open>
  A year of 0 is supplied and printed as the empty string; so is a month of 0, whose
  \<open>monthFormat\<close> is \<^verbatim>\<open>00\<close>.
\<close>

theorem createUrl_falsy_year_month_counterexample:
  "createUrl sample_school (JStr ''meal'') (JNum 0) (JNum 5) =
     Inr ''https://stu.sen.go.kr/sts_sci_md00_001.do?schulCode=B100000465&schulCrseScCode=4&schulKndScCode=04&ay=&mm=05&''
   \<and> ToString (JNum 0) = Inr ''0''
   \<and> createUrl sample_school (JStr ''meal'') (JNum 0) (JNum 5) \<noteq>
     Inr ''https://stu.sen.go.kr/sts_sci_md00_001.do?schulCode=B100000465&schulCrseScCode=4&schulKndScCode=04&ay=0&mm=05&''
   \<and> createUrl sample_school (JStr ''meal'') (JNum 2024) (JNum 0) =
     Inr ''https://stu.sen.go.kr/sts_sci_md00_001.do?schulCode=B100000465&schulCrseScCode=4&schulKndScCode=04&ay=2024&mm=&''
   \<and> monthFormat (JNum 0) = Inr ''00''"
proof -
  have n0: "Number_toString 0 = ''0''"
    by (simp add: Number_toString_def digits.simps digit_char_def)
  have year0: "createUrl sample_school (JStr ''meal'') (JNum 0) (JNum 5) =
     Inr ''https://stu.sen.go.kr/sts_sci_md00_001.do?schulCode=B100000465&schulCrseScCode=4&schulKndScCode=04&ay=&mm=05&''"
    by (simp add: createUrl_def sample_school_def and_then_Inr js_or_def monthFormat_def
        String_toLowerCase_meal Number_toString_5)
  have month0: "createUrl sample_school (JStr ''meal'') (JNum 2024) (JNum 0) =
     Inr ''https://stu.sen.go.kr/sts_sci_md00_001.do?schulCode=B100000465&schulCrseScCode=4&schulKndScCode=04&ay=2024&mm=&''"
    by (simp add: createUrl_def sample_school_def and_then_Inr js_or_def monthFormat_def
        String_toLowerCase_meal Number_toString_2024)
  have mf: "monthFormat (JNum 0) = Inr ''00''"
    by (simp add: monthFormat_def and_then_def n0)
  show ?thesis
    by (simp add: year0 month0 mf n0)
qed

section \<open>Construction\<close>



lemma constructor_return_initialized:
  assumes "School_constructor env this0 ty rg code = (None, this)"
  shows "p_initialized this = JBool True"
  using assms
  by (auto simp add: School_constructor_def Let_def split: if_splits sum.splits)



lemma sample_lookup_high: "lookup (EDUTYPE (DATA sample_env)) (JSym ''HIGH'') = JStr ''4''"
  by (simp add: sample_env_def sample_DATA_def lookup_def object_literal_def)










section \<open>Queries\<close>

lemma and_then_eq_Inl:
  "and_then m f = Inl e \<longleftrightarrow> m = Inl e \<or> (\<exists>x. m = Inr x \<and> f x = Inl e)"
  by (cases m) (simp_all add: and_then_def)

lemma ToString_error: "ToString v = Inl e \<Longrightarrow> e = TypeError"
  by (cases v) simp_all

lemma toString_method_error: "toString_method v = Inl e \<Longrightarrow> e = TypeError"
  by (cases v) simp_all

lemma toLowerCase_method_error: "toLowerCase_method v = Inl e \<Longrightarrow> e = TypeError"
  by (cases v) simp_all

lemma get_prop_error: "get_prop v name = Inl e \<Longrightarrow> e = TypeError"
  by (cases v) simp_all

lemma ToNumber_error: "ToNumber v = Inl e \<Longrightarrow> e = TypeError"
  by (cases v) simp_all

lemma monthFormat_error: "monthFormat v = Inl e \<Longrightarrow> e = TypeError"
  by (auto simp add: monthFormat_def and_then_eq_Inl dest: toString_method_error split: if_splits)

lemma less_than_1_of_int: "less_than_1 (Finite (of_int M)) = (M < 1)"
proof (cases "M < 1")
  case True
  then have "M \<le> 0" by simp
  then have "(of_int M :: rat) \<le> 0" by simp
  moreover have "(0 :: rat) < 1 - 1 / 2 ^ 54" by simp
  ultimately show ?thesis using True by simp
next
  case False
  then have "1 \<le> M" by simp
  then have "(1 :: rat) \<le> of_int M" by simp
  moreover have "(1 :: rat) - 1 / 2 ^ 54 < 1" by simp
  ultimately show ?thesis using False by simp
qed

lemma greater_than_12_of_int: "greater_than_12 (Finite (of_int M)) = (12 < M)"
proof (cases "12 < M")
  case True
  then have "13 \<le> M" by simp
  then have "(13 :: rat) \<le> of_int M" by (metis of_int_le_iff of_int_numeral)
  moreover have "(12 :: rat) + 1 / 2 ^ 50 < 13" by simp
  ultimately show ?thesis using True by simp
next
  case False
  then have "M \<le> 12" by simp
  then have "(of_int M :: rat) \<le> 12" by (metis of_int_le_iff of_int_numeral)
  moreover have "(12 :: rat) < 12 + 1 / 2 ^ 50" by simp
  ultimately show ?thesis using False by simp
qed

lemma month_range_check_eq:
  "month_range_check v =
     and_then (ToNumber v) (\<lambda>x.
       if less_than_1 x \<or> greater_than_12 x then Inl MonthRangeError else Inr ())"
  by (cases "ToNumber v") (simp_all add: month_range_check_def js_lt_1_def js_gt_12_def and_then_def)

lemma month_range_check_JNum:
  "month_range_check (JNum M) = (if M < 1 \<or> 12 < M then Inl MonthRangeError else Inr ())"
  by (simp add: month_range_check_eq and_then_def less_than_1_of_int greater_than_12_of_int)


lemma StringToNumber_object: "StringToNumber ''[object Object]'' = NaN"
  by code_simp







lemma month_range_check_kinds:
  "month_range_check JUndefined = Inr ()
   \<and> month_range_check JNull = Inl MonthRangeError
   \<and> month_range_check (JBool b) = (if b then Inr () else Inl MonthRangeError)
   \<and> month_range_check (JSym d) = Inl TypeError
   \<and> month_range_check (JObj fs) = Inr ()
   \<and> month_range_check (JFun src) = Inr ()"
  by (simp add: month_range_check_eq and_then_def StringToNumber_object)


lemma month_range_check_error:
  "month_range_check v = Inl e \<Longrightarrow> e = TypeError \<or> e = MonthRangeError"
  by (auto simp add: month_range_check_eq and_then_eq_Inl dest: ToNumber_error split: if_splits)

lemma month_range_check_in_range:
  "1 \<le> M \<Longrightarrow> M \<le> 12 \<Longrightarrow> month_range_check (JNum M) = Inr ()"
  by (simp add: month_range_check_JNum)


lemma month_range_check_undefined: "month_range_check JUndefined = Inr ()"
  by (simp add: month_range_check_kinds)

lemma createUrl_error:
  assumes "truthy (p_initialized this)" and "createUrl this type year month = Inl e"
  shows "e = TypeError \<or> e = UnknownKindError"
  using assms
  by (auto simp add: createUrl_def and_then_eq_Inl
      dest: ToString_error toLowerCase_method_error monthFormat_error split: if_splits)

lemma getMeal_error:
  assumes "truthy (p_initialized this)" and "getMeal this year month = Inl e"
  shows "e = TypeError \<or> e = UnknownKindError \<or> e = IncompleteDateError \<or> e = MonthRangeError"
  using assms
  by (auto simp add: getMeal_def and_then_eq_Inl Let_def
      dest: get_prop_error month_range_check_error createUrl_error
      split: if_splits option.splits)

lemma getCalendar_error:
  assumes "truthy (p_initialized this)" and "getCalendar this year month = Inl e"
  shows "e = TypeError \<or> e = UnknownKindError \<or> e = IncompleteDateError \<or> e = MonthRangeError"
  using assms
  by (auto simp add: getCalendar_def and_then_eq_Inl Let_def
      dest: get_prop_error month_range_check_error createUrl_error
      split: if_splits option.splits)

lemma getMeal_positional:
  assumes "typeof year \<noteq> ''object''"
  shows "getMeal this year month =
     (if date_incomplete year month then Inl IncompleteDateError
      else and_then (month_range_check month) (\<lambda>_.
        if truthy (p_initialized this) then
          (case p_meal this of
             None \<Rightarrow> Inl TypeError
           | Some meal \<Rightarrow>
               and_then (createUrl this (JStr ''meal'') year month) (\<lambda>url.
                 Inr (meal url (JStr ''''))))
        else Inl NotInitializedError))"
  using assms by (simp add: getMeal_def and_then_Inr and_then_Inl js_or_def own_prop_def)

lemma getCalendar_positional:
  assumes "typeof year \<noteq> ''object''"
  shows "getCalendar this year month =
     (if date_incomplete year month then Inl IncompleteDateError
      else and_then (month_range_check month) (\<lambda>_.
        if truthy (p_initialized this) then
          (case p_calendar this of
             None \<Rightarrow> Inl TypeError
           | Some calendar \<Rightarrow>
               and_then (createUrl this (JStr ''calendar'') year month) (\<lambda>url.
                 Inr (calendar url (JStr ''''))))
        else Inl NotInitializedError))"
  using assms by (simp add: getCalendar_def and_then_Inr and_then_Inl js_or_def own_prop_def)

lemma getMeal_options:
  "getMeal this (JObj fs) ignored =
     and_then (month_range_check (own_prop fs ''month'')) (\<lambda>_.
       if truthy (p_initialized this) then
         (case p_meal this of
            None \<Rightarrow> Inl TypeError
          | Some meal \<Rightarrow>
              and_then (createUrl this (JStr ''meal'') (own_prop fs ''year'') (own_prop fs ''month''))
                (\<lambda>url. Inr (meal url (js_or (own_prop fs ''default'') (JStr '''')))))
       else Inl NotInitializedError)"
  by (simp add: getMeal_def and_then_Inr js_or_def [of "JObj fs"])

lemma getCalendar_options:
  "getCalendar this (JObj fs) ignored =
     and_then (month_range_check (own_prop fs ''month'')) (\<lambda>_.
       if truthy (p_initialized this) then
         (case p_calendar this of
            None \<Rightarrow> Inl TypeError
          | Some calendar \<Rightarrow>
              and_then (createUrl this (JStr ''calendar'') (own_prop fs ''yaer'') (own_prop fs ''month''))
                (\<lambda>url. Inr (calendar url (js_or (own_prop fs ''default'') (JStr '''')))))
       else Inl NotInitializedError)"
  by (simp add: getCalendar_def and_then_Inr js_or_def [of "JObj fs"])











lemma getTargetURL_error:
  assumes "truthy (p_initialized this)" and "getTargetURL this type year month = Inl e"
  shows "e = TypeError \<or> e = UnknownKindError \<or> e = IncompleteDateError"
  using assms
  by (auto simp add: getTargetURL_def dest: createUrl_error split: if_splits)

lemma new_School_Inr:
  assumes "new_School env ty rg code = Inr this"
  shows "School_constructor env fresh ty rg code = (None, this)"
  using assms
  by (auto simp add: new_School_def split: prod.splits option.splits)

lemma sample_constructor_success:
  "School_constructor sample_env fresh (JSym ''HIGH'') (JSym ''SEOUL'') (JStr ''B100000465'') =
     (None, sample_school)"
  by (simp add: School_constructor_def sample_env_def sample_DATA_def sample_school_def fresh_def
      lookup_def object_literal_def Let_def)

lemma sample_new_School:
  "new_School sample_env (JSym ''HIGH'') (JSym ''SEOUL'') (JStr ''B100000465'') = Inr sample_school"
  by (simp add: new_School_def sample_constructor_success)

section \<open>Instances the constructor returns\<close>

text \<open>
  Claim C10. A run of the constructor that does not throw leaves \<^verbatim>\<open>_initialized\<close> set to
  \<^verbatim>\<open>true\<close>, on whatever object it ran. So an instance that \<^verbatim>\<open>new School(...)\<close> returns is
  finalized, and on it \<open>createUrl\<close>, \<open>getTargetURL\<close>, \<open>getMeal\<close> and
  \<open>getCalendar\<close> never fail with \<open>NotInitializedError\<close>, for any arguments.
\<close>

theorem constructed_instance_finalized:
  "(School_constructor env this0 ty rg code = (None, this) \<longrightarrow>
      p_initialized this = JBool True \<and> truthy (p_initialized this))
   \<and> (new_School env ty rg code = Inr this' \<longrightarrow>
        truthy (p_initialized this')
        \<and> createUrl this' k year month \<noteq> Inl NotInitializedError
        \<and> getTargetURL this' k year month \<noteq> Inl NotInitializedError
        \<and> getMeal this' year month \<noteq> Inl NotInitializedError
        \<and> getCalendar this' year month \<noteq> Inl NotInitializedError)"
proof -
  have body: "School_constructor env this0 ty rg code = (None, this) \<longrightarrow>
      p_initialized this = JBool True \<and> truthy (p_initialized this)"
    by (auto dest: constructor_return_initialized)
  have new: "new_School env ty rg code = Inr this' \<longrightarrow>
        truthy (p_initialized this')
        \<and> createUrl this' k year month \<noteq> Inl NotInitializedError
        \<and> getTargetURL this' k year month \<noteq> Inl NotInitializedError
        \<and> getMeal this' year month \<noteq> Inl NotInitializedError
        \<and> getCalendar this' year month \<noteq> Inl NotInitializedError"
  proof
    assume "new_School env ty rg code = Inr this'"
    then have "School_constructor env fresh ty rg code = (None, this')"
      by (rule new_School_Inr)
    then have init: "truthy (p_initialized this')"
      by (auto dest: constructor_return_initialized)
    have url: "createUrl this' k year month \<noteq> Inl NotInitializedError"
      using createUrl_error [OF init, of k year month NotInitializedError] by auto
    have target: "getTargetURL this' k year month \<noteq> Inl NotInitializedError"
      using getTargetURL_error [OF init, of k year month NotInitializedError] by auto
    have meal: "getMeal this' year month \<noteq> Inl NotInitializedError"
      using getMeal_error [OF init, of year month NotInitializedError] by auto
    have calendar: "getCalendar this' year month \<noteq> Inl NotInitializedError"
      using getCalendar_error [OF init, of year month NotInitializedError] by auto
    from init url target meal calendar
    show "truthy (p_initialized this')
        \<and> createUrl this' k year month \<noteq> Inl NotInitializedError
        \<and> getTargetURL this' k year month \<noteq> Inl NotInitializedError
        \<and> getMeal this' year month \<noteq> Inl NotInitializedError
        \<and> getCalendar this' year month \<noteq> Inl NotInitializedError"
      by blast
  qed
  from body new show ?thesis by blast
qed

theorem constructed_instance_finalized_witness:
  "School_constructor sample_env fresh (JSym ''HIGH'') (JSym ''SEOUL'') (JStr ''B100000465'') =
     (None, sample_school)
   \<and> new_School sample_env (JSym ''HIGH'') (JSym ''SEOUL'') (JStr ''B100000465'') = Inr sample_school
   \<and> p_initialized sample_school = JBool True
   \<and> createUrl sample_school (JStr ''meal'') (JNum 2024) (JNum 13) \<noteq> Inl NotInitializedError
   \<and> getMeal sample_school (JNum 2024) (JNum 13) \<noteq> Inl NotInitializedError
   \<and> getCalendar sample_school (JNum 2024) (JNum 13) \<noteq> Inl NotInitializedError"
  using constructed_instance_finalized [of sample_env fresh "JSym ''HIGH''" "JSym ''SEOUL''"
      "JStr ''B100000465''" sample_school sample_school "JStr ''meal''" "JNum 2024" "JNum 13"]
    sample_constructor_success sample_new_School
  by simp

section \<open>Option objects\<close>

lemma sample_school_meal: "p_meal sample_school = Some Pair"
  by (simp add: sample_school_def)

text \<open>
  Claim C9, as the code has it. On a finalized identity with its meal fetcher, for every
  year \<open>Y\<close>, month \<open>M\<close> from 1 to 12 and value \<open>D\<close>, the call
  \<^verbatim>\<open>getMeal({year: Y, month: M, default: D})\<close> and the call \<^verbatim>\<open>getMeal(Y, M)\<close> build the
  same URL, \<open>createUrl\<close> of \<^verbatim>\<open>meal\<close>, \<open>Y\<close> and \<open>M\<close>, and fail alike when \<open>createUrl\<close>
  fails. The first hands the fetcher \<open>D\<close> as default value when \<open>D\<close> is truthy and the
  empty string when \<open>D\<close> is falsy; the second hands it the empty string.
\<close>

theorem getMeal_options_and_positional:
  assumes "truthy (p_initialized this)" and "p_meal this = Some meal"
    and "1 \<le> M" and "M \<le> 12"
  shows "getMeal this (JObj [(''year'', JNum Y), (''month'', JNum M), (''default'', D)]) ignored =
           and_then (createUrl this (JStr ''meal'') (JNum Y) (JNum M))
             (\<lambda>url. Inr (meal url (if truthy D then D else JStr '''')))
       \<and> getMeal this (JNum Y) (JNum M) =
           and_then (createUrl this (JStr ''meal'') (JNum Y) (JNum M))
             (\<lambda>url. Inr (meal url (JStr '''')))"
proof -
  have range: "month_range_check (JNum M) = Inr ()"
    using assms(3,4) by (rule month_range_check_in_range)
  have options:
    "getMeal this (JObj [(''year'', JNum Y), (''month'', JNum M), (''default'', D)]) ignored =
           and_then (createUrl this (JStr ''meal'') (JNum Y) (JNum M))
             (\<lambda>url. Inr (meal url (if truthy D then D else JStr '''')))"
    using assms(1,2) by (simp add: getMeal_options own_prop_def range and_then_Inr js_or_def)
  have positional: "getMeal this (JNum Y) (JNum M) =
           and_then (createUrl this (JStr ''meal'') (JNum Y) (JNum M))
             (\<lambda>url. Inr (meal url (JStr '''')))"
    using assms(1,2) by (simp add: getMeal_positional date_incomplete_def range and_then_Inr)
  from options positional show ?thesis by blast
qed

theorem getMeal_options_and_positional_witness:
  "truthy (p_initialized sample_school) \<and> p_meal sample_school = Some Pair
   \<and> (1::int) \<le> 5 \<and> (5::int) \<le> 12 \<and> truthy (JObj [])
   \<and> getMeal sample_school
        (JObj [(''year'', JNum 2024), (''month'', JNum 5), (''default'', JObj [])]) JUndefined =
       Inr (''https://stu.sen.go.kr/sts_sci_md00_001.do?schulCode=B100000465&schulCrseScCode=4&schulKndScCode=04&ay=2024&mm=05&'',
            JObj [])
   \<and> getMeal sample_school (JNum 2024) (JNum 5) =
       Inr (''https://stu.sen.go.kr/sts_sci_md00_001.do?schulCode=B100000465&schulCrseScCode=4&schulKndScCode=04&ay=2024&mm=05&'',
            JStr '''')"
  using getMeal_options_and_positional [OF sample_school_initialized sample_school_meal,
      of 5 2024 "JObj []" JUndefined]
    sample_school_initialized sample_school_meal createUrl_sample_meal
  by (simp add: and_then_Inr)

text \<open>
  With \<^verbatim>\<open>default: null\<close> the fetcher receives the empty string, not \<^verbatim>\<open>null\<close>.
\<close>

theorem getMeal_falsy_default_counterexample:
  "\<not> truthy JNull
   \<and> getMeal sample_school
        (JObj [(''year'', JNum 2024), (''month'', JNum 5), (''default'', JNull)]) JUndefined =
       Inr (''https://stu.sen.go.kr/sts_sci_md00_001.do?schulCode=B100000465&schulCrseScCode=4&schulKndScCode=04&ay=2024&mm=05&'',
            JStr '''')
   \<and> getMeal sample_school
        (JObj [(''year'', JNum 2024), (''month'', JNum 5), (''default'', JNull)]) JUndefined \<noteq>
       Inr (''https://stu.sen.go.kr/sts_sci_md00_001.do?schulCode=B100000465&schulCrseScCode=4&schulKndScCode=04&ay=2024&mm=05&'',
            JNull)"
proof -
  have range: "month_range_check (JNum 5) = Inr ()"
    by (rule month_range_check_in_range) simp_all
  have "getMeal sample_school
        (JObj [(''year'', JNum 2024), (''month'', JNum 5), (''default'', JNull)]) JUndefined =
       Inr (''https://stu.sen.go.kr/sts_sci_md00_001.do?schulCode=B100000465&schulCrseScCode=4&schulKndScCode=04&ay=2024&mm=05&'',
            JStr '''')"
    by (simp add: getMeal_options own_prop_def range and_then_Inr js_or_def
        sample_school_initialized sample_school_meal createUrl_sample_meal)
  then show ?thesis by simp
qed

section \<open>Option objects without validation\<close>

text \<open>
  Claim C1 fails on the code: line 183 reads \<^verbatim>\<open>option.yaer\<close>, so the year of an option
  object never reaches the URL of \<open>getCalendar\<close>. With \<^verbatim>\<open>{year: 2024, month: 5}\<close> the
  calendar URL has an empty \<^verbatim>\<open>ay\<close> field, where \<open>getMeal\<close> on the same object and
  \<open>getCalendar\<close> on the two positional arguments both put 2024.
\<close>

theorem getCalendar_options_year_dropped:
  "getCalendar sample_school (JObj [(''year'', JNum 2024), (''month'', JNum 5)]) JUndefined =
     Inr (''https://stu.sen.go.kr/sts_sci_sf01_001.do?schulCode=B100000465&schulCrseScCode=4&schulKndScCode=04&ay=&mm=05&'',
          JStr '''')
   \<and> getMeal sample_school (JObj [(''year'', JNum 2024), (''month'', JNum 5)]) JUndefined =
     Inr (''https://stu.sen.go.kr/sts_sci_md00_001.do?schulCode=B100000465&schulCrseScCode=4&schulKndScCode=04&ay=2024&mm=05&'',
          JStr '''')
   \<and> getCalendar sample_school (JNum 2024) (JNum 5) =
     Inr (''https://stu.sen.go.kr/sts_sci_sf01_001.do?schulCode=B100000465&schulCrseScCode=4&schulKndScCode=04&ay=2024&mm=05&'',
          JStr '''')"
proof -
  have range: "month_range_check (JNum 5) = Inr ()"
    by (rule month_range_check_in_range) simp_all
  have cal: "p_calendar sample_school = Some Pair"
    by (simp add: sample_school_def)
  have url: "createUrl sample_school (JStr ''calendar'') JUndefined (JNum 5) =
      Inr ''https://stu.sen.go.kr/sts_sci_sf01_001.do?schulCode=B100000465&schulCrseScCode=4&schulKndScCode=04&ay=&mm=05&''"
    by (simp add: createUrl_def sample_school_def and_then_Inr js_or_def monthFormat_def
        String_toLowerCase_calendar Number_toString_5)
  have calendar_options:
    "getCalendar sample_school (JObj [(''year'', JNum 2024), (''month'', JNum 5)]) JUndefined =
     Inr (''https://stu.sen.go.kr/sts_sci_sf01_001.do?schulCode=B100000465&schulCrseScCode=4&schulKndScCode=04&ay=&mm=05&'',
          JStr '''')"
    by (simp add: getCalendar_options own_prop_def range and_then_Inr js_or_def
        sample_school_initialized cal url)
  have meal_options:
    "getMeal sample_school (JObj [(''year'', JNum 2024), (''month'', JNum 5)]) JUndefined =
     Inr (''https://stu.sen.go.kr/sts_sci_md00_001.do?schulCode=B100000465&schulCrseScCode=4&schulKndScCode=04&ay=2024&mm=05&'',
          JStr '''')"
    by (simp add: getMeal_options own_prop_def range and_then_Inr js_or_def
        sample_school_initialized sample_school_meal createUrl_sample_meal)
  have calendar_positional: "getCalendar sample_school (JNum 2024) (JNum 5) =
     Inr (''https://stu.sen.go.kr/sts_sci_sf01_001.do?schulCode=B100000465&schulCrseScCode=4&schulKndScCode=04&ay=2024&mm=05&'',
          JStr '''')"
    by (simp add: getCalendar_positional date_incomplete_def range and_then_Inr
        sample_school_initialized cal createUrl_sample_calendar)
  from calendar_options meal_options calendar_positional show ?thesis by blast
qed

text \<open>
  Claim C2 fails on the code: the completeness check is the \<^verbatim>\<open>else if\<close> branch of the
  option-object test (lines 143-154 and 181-192), so it is skipped for an option object.
  \<^verbatim>\<open>getMeal({year: 2024})\<close> and \<^verbatim>\<open>getCalendar({month: 5})\<close> reach the fetcher with a
  half-filled URL, where the positional calls \<^verbatim>\<open>getMeal(2024)\<close> and
  \<^verbatim>\<open>getCalendar(undefined, 5)\<close> and \<^verbatim>\<open>getTargetURL('meal', 2024)\<close> fail with
  \<open>IncompleteDateError\<close>.
\<close>

theorem getMeal_options_incomplete_date_accepted:
  "getMeal sample_school (JObj [(''year'', JNum 2024)]) JUndefined =
     Inr (''https://stu.sen.go.kr/sts_sci_md00_001.do?schulCode=B100000465&schulCrseScCode=4&schulKndScCode=04&ay=2024&mm=&'',
          JStr '''')
   \<and> getCalendar sample_school (JObj [(''month'', JNum 5)]) JUndefined =
     Inr (''https://stu.sen.go.kr/sts_sci_sf01_001.do?schulCode=B100000465&schulCrseScCode=4&schulKndScCode=04&ay=&mm=05&'',
          JStr '''')
   \<and> getMeal sample_school (JNum 2024) JUndefined = Inl IncompleteDateError
   \<and> getCalendar sample_school JUndefined (JNum 5) = Inl IncompleteDateError
   \<and> getTargetURL sample_school (JStr ''meal'') (JNum 2024) JUndefined = Inl IncompleteDateError"
proof -
  have range: "month_range_check (JNum 5) = Inr ()"
    by (rule month_range_check_in_range) simp_all
  have cal: "p_calendar sample_school = Some Pair"
    by (simp add: sample_school_def)
  have url_meal: "createUrl sample_school (JStr ''meal'') (JNum 2024) JUndefined =
      Inr ''https://stu.sen.go.kr/sts_sci_md00_001.do?schulCode=B100000465&schulCrseScCode=4&schulKndScCode=04&ay=2024&mm=&''"
    by (simp add: createUrl_def sample_school_def and_then_Inr js_or_def monthFormat_def
        String_toLowerCase_meal Number_toString_2024)
  have url_calendar: "createUrl sample_school (JStr ''calendar'') JUndefined (JNum 5) =
      Inr ''https://stu.sen.go.kr/sts_sci_sf01_001.do?schulCode=B100000465&schulCrseScCode=4&schulKndScCode=04&ay=&mm=05&''"
    by (simp add: createUrl_def sample_school_def and_then_Inr js_or_def monthFormat_def
        String_toLowerCase_calendar Number_toString_5)
  have meal_options: "getMeal sample_school (JObj [(''year'', JNum 2024)]) JUndefined =
     Inr (''https://stu.sen.go.kr/sts_sci_md00_001.do?schulCode=B100000465&schulCrseScCode=4&schulKndScCode=04&ay=2024&mm=&'',
          JStr '''')"
    by (simp add: getMeal_options own_prop_def month_range_check_undefined and_then_Inr js_or_def
        sample_school_initialized sample_school_meal url_meal)
  have calendar_options: "getCalendar sample_school (JObj [(''month'', JNum 5)]) JUndefined =
     Inr (''https://stu.sen.go.kr/sts_sci_sf01_001.do?schulCode=B100000465&schulCrseScCode=4&schulKndScCode=04&ay=&mm=05&'',
          JStr '''')"
    by (simp add: getCalendar_options own_prop_def range and_then_Inr js_or_def
        sample_school_initialized cal url_calendar)
  have meal_positional: "getMeal sample_school (JNum 2024) JUndefined = Inl IncompleteDateError"
    by (simp add: getMeal_positional date_incomplete_def)
  have calendar_positional:
    "getCalendar sample_school JUndefined (JNum 5) = Inl IncompleteDateError"
    by (simp add: getCalendar_positional date_incomplete_def)
  have target:
    "getTargetURL sample_school (JStr ''meal'') (JNum 2024) JUndefined = Inl IncompleteDateError"
    by (simp add: getTargetURL_def date_incomplete_def)
  from meal_options calendar_options meal_positional calendar_positional target
  show ?thesis by blast
qed

end
